theory Spec2Isabelle
  imports Complex_Main "HOL-Library.AList" "HOL-Library.Log_Nat"
begin

section \<open>Floating-point values\<close>

text \<open>
  The coordinates are Python and numpy floats. A float is modelled as a real number or the
  not-a-number value; overflow and the infinities are left out, the propagation of NaN
  through the arithmetic is kept. The operations of this section are exact: they give what
  the formulas of the program mean. The rounding of the doubles is the subject of a later
  section, which repeats the operations with it.
\<close>

datatype fl = NaN | Num real

fun fadd :: "fl \<Rightarrow> fl \<Rightarrow> fl" where
  "fadd (Num a) (Num b) = Num (a + b)"
| "fadd _ _ = NaN"

fun fsub :: "fl \<Rightarrow> fl \<Rightarrow> fl" where
  "fsub (Num a) (Num b) = Num (a - b)"
| "fsub _ _ = NaN"

fun fmul :: "fl \<Rightarrow> fl \<Rightarrow> fl" where
  "fmul (Num a) (Num b) = Num (a * b)"
| "fmul _ _ = NaN"

text \<open>\<^verbatim>\<open>math.radians\<close>, on a finite angle.\<close>

definition radians :: "real \<Rightarrow> real" where
  "radians d = d * pi / 180"

section \<open>Series, arrays and data frames\<close>

datatype error = KeyError string | ValueError

text \<open>
  \<^verbatim>\<open>Series.mean()\<close> skips the NaN entries and is NaN when nothing is left, so the mean
  of an empty column is NaN.
\<close>

definition mean :: "fl list \<Rightarrow> fl" where
  "mean xs =
     (let vs = [v. Num v \<leftarrow> xs]
      in if vs = [] then NaN else Num (sum_list vs / real (length vs)))"

text \<open>\<^verbatim>\<open>np.column_stack((a, b))\<close> of two one-dimensional arrays: an n x 2 array, a list of rows.\<close>

definition column_stack :: "fl list \<Rightarrow> fl list \<Rightarrow> error + (fl \<times> fl) list" where
  "column_stack a b = (if length a = length b then Inr (zip a b) else Inl ValueError)"

type_synonym matrix = "(fl \<times> fl) \<times> (fl \<times> fl)"

text \<open>The attribute \<^verbatim>\<open>.T\<close> of a 2 x 2 array.\<close>

fun T :: "matrix \<Rightarrow> matrix" where
  "T ((a, b), (c, d)) = ((a, c), (b, d))"

text \<open>\<^verbatim>\<open>np.dot\<close> of an n x 2 array with a 2 x 2 array: row i, column j is the sum over k of
  \<open>coords[i][k] * m[k][j]\<close>, so each row of the result comes from the same row of
  \<open>coords\<close>.\<close>

fun dot_row :: "matrix \<Rightarrow> fl \<times> fl \<Rightarrow> fl \<times> fl" where
  "dot_row ((m00, m01), (m10, m11)) (x, y) =
     (fadd (fmul x m00) (fmul y m10), fadd (fmul x m01) (fmul y m11))"

definition dot :: "(fl \<times> fl) list \<Rightarrow> matrix \<Rightarrow> (fl \<times> fl) list" where
  "dot coords m = map (dot_row m) coords"

text \<open>
  A data frame is its columns in order, each a name and the values of its rows. In a data
  frame of pandas every column has as many values as the index has rows.
\<close>

type_synonym dataframe = "(string \<times> fl list) list"

definition nrows :: "dataframe \<Rightarrow> nat" where
  "nrows df = (case df of [] \<Rightarrow> 0 | c # _ \<Rightarrow> length (snd c))"

definition wf_df :: "dataframe \<Rightarrow> bool" where
  "wf_df df = list_all (\<lambda>c. length (snd c) = nrows df) df"

text \<open>\<^verbatim>\<open>df[name]\<close> raises KeyError when there is no such column.\<close>

definition getitem :: "dataframe \<Rightarrow> string \<Rightarrow> error + fl list" where
  "getitem df name = (case map_of df name of None \<Rightarrow> Inl (KeyError name) | Some c \<Rightarrow> Inr c)"

text \<open>
  \<^verbatim>\<open>df[name] = values\<close> replaces the column of that name where it stands, or appends a new
  column; values of another length than the index raise ValueError.
\<close>

definition setitem :: "dataframe \<Rightarrow> string \<Rightarrow> fl list \<Rightarrow> error + dataframe" where
  "setitem df name vals =
     (if df \<noteq> [] \<and> length vals \<noteq> nrows df then Inl ValueError
      else Inr (AList.update name vals df))"

section \<open>The store of objects\<close>

text \<open>
  Data frames are mutable objects that the functions receive by reference. The store holds
  every live data frame, a reference is a position in it. \<^verbatim>\<open>df.copy()\<close> allocates a new
  object with the same columns, and an assignment to a column writes to the object it is
  made on.
\<close>

type_synonym ref = nat
type_synonym heap = "dataframe list"

definition df_copy :: "ref \<Rightarrow> heap \<Rightarrow> ref \<times> heap" where
  "df_copy r h = (length h, h @ [h ! r])"

definition store_col :: "ref \<Rightarrow> string \<Rightarrow> fl list \<Rightarrow> heap \<Rightarrow> error + heap" where
  "store_col r name vals h =
     (case setitem (h ! r) name vals of Inl e \<Rightarrow> Inl e | Inr df \<Rightarrow> Inr (h[r := df]))"

section \<open>The transforms (airfoil.py)\<close>

text \<open>
  Each function takes the reference of the input data frame, the parameter and the store,
  and returns the reference of the result, or the exception raised, together with the store
  at that moment. The statements follow the source in order: the copy, the centroid (for
  the two transforms about it), the angle in radians and the rotation matrix, the array of
  the coordinates, its product with the transposed matrix, and the two assignments to the
  columns of the copy. The angle and the scale factor are finite numbers.

  \<^verbatim>\<open>twist_airfoil_ledge\<close> (lines 6 to 37): rotation about the origin.
\<close>

definition twist_airfoil_ledge :: "ref \<Rightarrow> real \<Rightarrow> heap \<Rightarrow> (error + ref) \<times> heap" where
  "twist_airfoil_ledge df angle_degrees h =
     (let (result_df, h1) = df_copy df h;
          angle_rad = radians angle_degrees;
          rotation_matrix = ((Num (cos angle_rad), Num (- sin angle_rad)),
                             (Num (sin angle_rad), Num (cos angle_rad)))
      in case getitem (h1 ! result_df) ''X'' of Inl e \<Rightarrow> (Inl e, h1) | Inr xs \<Rightarrow>
         case getitem (h1 ! result_df) ''Y'' of Inl e \<Rightarrow> (Inl e, h1) | Inr ys \<Rightarrow>
         case column_stack xs ys of Inl e \<Rightarrow> (Inl e, h1) | Inr coords \<Rightarrow>
         let rotated_coords = dot coords (T rotation_matrix)
         in case store_col result_df ''X_twisted'' (map fst rotated_coords) h1 of
              Inl e \<Rightarrow> (Inl e, h1) | Inr h2 \<Rightarrow>
            case store_col result_df ''Y_twisted'' (map snd rotated_coords) h2 of
              Inl e \<Rightarrow> (Inl e, h2) | Inr h3 \<Rightarrow>
            (Inr result_df, h3))"

text \<open>
  \<^verbatim>\<open>twist_airfoil_centroid\<close> (lines 39 to 74): the centroid is subtracted from the
  coordinates before the rotation and added to the rotated coordinates.
\<close>

definition twist_airfoil_centroid :: "ref \<Rightarrow> real \<Rightarrow> heap \<Rightarrow> (error + ref) \<times> heap" where
  "twist_airfoil_centroid df angle_degrees h =
     (let (result_df, h1) = df_copy df h
      in case getitem (h1 ! result_df) ''X'' of Inl e \<Rightarrow> (Inl e, h1) | Inr xs \<Rightarrow>
         let centroid_x = mean xs
         in case getitem (h1 ! result_df) ''Y'' of Inl e \<Rightarrow> (Inl e, h1) | Inr ys \<Rightarrow>
         let centroid_y = mean ys;
             angle_rad = radians angle_degrees;
             rotation_matrix = ((Num (cos angle_rad), Num (- sin angle_rad)),
                                (Num (sin angle_rad), Num (cos angle_rad)))
         in case column_stack (map (\<lambda>x. fsub x centroid_x) xs) (map (\<lambda>y. fsub y centroid_y) ys) of
              Inl e \<Rightarrow> (Inl e, h1) | Inr coords \<Rightarrow>
            let rotated_coords = dot coords (T rotation_matrix)
            in case store_col result_df ''X_twisted''
                      (map (\<lambda>p. fadd (fst p) centroid_x) rotated_coords) h1 of
                 Inl e \<Rightarrow> (Inl e, h1) | Inr h2 \<Rightarrow>
               case store_col result_df ''Y_twisted''
                      (map (\<lambda>p. fadd (snd p) centroid_y) rotated_coords) h2 of
                 Inl e \<Rightarrow> (Inl e, h2) | Inr h3 \<Rightarrow>
               (Inr result_df, h3))"

text \<open>
  \<^verbatim>\<open>scale_airfoil\<close> (lines 76 to 98): each column becomes
  \<open>centroid + (column - centroid) * scale_factor\<close>; the Y column is read again after the
  assignment of \<^verbatim>\<open>X_scaled\<close>.
\<close>

definition scale_airfoil :: "ref \<Rightarrow> real \<Rightarrow> heap \<Rightarrow> (error + ref) \<times> heap" where
  "scale_airfoil df scale_factor h =
     (let (result_df, h1) = df_copy df h
      in case getitem (h1 ! result_df) ''X'' of Inl e \<Rightarrow> (Inl e, h1) | Inr xs \<Rightarrow>
         let centroid_x = mean xs
         in case getitem (h1 ! result_df) ''Y'' of Inl e \<Rightarrow> (Inl e, h1) | Inr ys \<Rightarrow>
         let centroid_y = mean ys
         in case store_col result_df ''X_scaled''
                   (map (\<lambda>x. fadd centroid_x (fmul (fsub x centroid_x) (Num scale_factor))) xs) h1 of
              Inl e \<Rightarrow> (Inl e, h1) | Inr h2 \<Rightarrow>
            case getitem (h2 ! result_df) ''Y'' of Inl e \<Rightarrow> (Inl e, h2) | Inr ys2 \<Rightarrow>
            case store_col result_df ''Y_scaled''
                   (map (\<lambda>y. fadd centroid_y (fmul (fsub y centroid_y) (Num scale_factor))) ys2) h2 of
              Inl e \<Rightarrow> (Inl e, h2) | Inr h3 \<Rightarrow>
            (Inr result_df, h3))"

section \<open>The sliders of the user interface (plot.py)\<close>

text \<open>
  \<^verbatim>\<open>Plotting.__init__\<close> creates two sliders of the plotting toolkit (matplotlib's
  \<^verbatim>\<open>Slider\<close> widget) and reads their \<^verbatim>\<open>val\<close> on every redraw. The widget is not part
  of the repository. Its constructor passes \<^verbatim>\<open>valinit\<close> through \<^verbatim>\<open>_value_in_bounds\<close>
  before it stores it as \<^verbatim>\<open>val\<close>: with no step and closed bounds, a value at or below
  \<^verbatim>\<open>valmin\<close> becomes \<^verbatim>\<open>valmin\<close> and one at or above \<^verbatim>\<open>valmax\<close> becomes \<^verbatim>\<open>valmax\<close>.
\<close>

record slider =
  valmin :: real
  valmax :: real
  val :: real
  active :: bool

definition value_in_bounds :: "real \<Rightarrow> real \<Rightarrow> real \<Rightarrow> real" where
  "value_in_bounds vmin vmax v = (if v \<le> vmin then vmin else if v \<ge> vmax then vmax else v)"

definition Slider :: "real \<Rightarrow> real \<Rightarrow> real \<Rightarrow> slider" where
  "Slider vmin vmax vinit =
     \<lparr>valmin = vmin, valmax = vmax, val = value_in_bounds vmin vmax vinit, active = True\<rparr>"

definition set_active :: "bool \<Rightarrow> slider \<Rightarrow> slider" where
  "set_active b s = s\<lparr>active := b\<rparr>"

record plotting =
  angle_slider :: slider
  scale_slider :: slider

text \<open>The two sliders as \<^verbatim>\<open>Plotting.__init__\<close> creates them (lines 22 to 27).\<close>

definition Plotting_init :: plotting where
  "Plotting_init =
     \<lparr>angle_slider = set_active True (Slider (- 180) 180 0),
      scale_slider = set_active False (Slider 0.1 2.0 0)\<rparr>"

section \<open>The words of the specification\<close>

text \<open>
  The product of a 2 x 2 matrix of reals with a column vector, the rotation matrix of an
  angle in radians, and the arithmetic mean.
\<close>

fun mat_vec :: "(real \<times> real) \<times> (real \<times> real) \<Rightarrow> real \<times> real \<Rightarrow> real \<times> real" where
  "mat_vec ((a, b), (c, d)) (x, y) = (a * x + b * y, c * x + d * y)"

definition rotation :: "real \<Rightarrow> (real \<times> real) \<times> (real \<times> real)" where
  "rotation th = ((cos th, - sin th), (sin th, cos th))"

definition arith_mean :: "real list \<Rightarrow> real" where
  "arith_mean xs = sum_list xs / real (length xs)"

text \<open>
  \<open>has_frame h r xs ys\<close>: the reference \<open>r\<close> is a live data frame of the store \<open>h\<close> with
  the columns \<open>xs\<close> and \<open>ys\<close> under the names X and Y. \<open>holds_points\<close> is the same for a
  point set of finite coordinates.
\<close>

definition has_frame :: "heap \<Rightarrow> ref \<Rightarrow> fl list \<Rightarrow> fl list \<Rightarrow> bool" where
  "has_frame h r xs ys \<longleftrightarrow>
     r < length h \<and> wf_df (h ! r) \<and>
     getitem (h ! r) ''X'' = Inr xs \<and> getitem (h ! r) ''Y'' = Inr ys"

definition holds_points :: "heap \<Rightarrow> ref \<Rightarrow> real list \<Rightarrow> real list \<Rightarrow> bool" where
  "holds_points h r xs ys = has_frame h r (map Num xs) (map Num ys)"

text \<open>
  The two columns of the given names in the data frame that a call returned; \<open>None\<close> when
  the call raised or a column is missing.
\<close>

definition out_cols :: "(error + ref) \<times> heap \<Rightarrow> string \<Rightarrow> string \<Rightarrow> (fl list \<times> fl list) option" where
  "out_cols res cx cy =
     (case fst res of
        Inl e \<Rightarrow> None
      | Inr r \<Rightarrow>
          (case getitem (snd res ! r) cx of
             Inl e \<Rightarrow> None
           | Inr a \<Rightarrow> (case getitem (snd res ! r) cy of Inl e \<Rightarrow> None | Inr b \<Rightarrow> Some (a, b))))"

text \<open>The points of a returned data frame, and the centroid of two columns.\<close>

definition out_points :: "(error + ref) \<times> heap \<Rightarrow> string \<Rightarrow> string \<Rightarrow> (fl \<times> fl) list option" where
  "out_points res cx cy = map_option (\<lambda>c. zip (fst c) (snd c)) (out_cols res cx cy)"

definition centroid :: "fl list \<times> fl list \<Rightarrow> fl \<times> fl" where
  "centroid c = (mean (fst c), mean (snd c))"

text \<open>The coordinates that the transforms compute, before they are stored.\<close>

definition ledge_coords :: "real \<Rightarrow> fl list \<Rightarrow> fl list \<Rightarrow> (fl \<times> fl) list" where
  "ledge_coords a xs ys =
     dot (zip xs ys) (T ((Num (cos (radians a)), Num (- sin (radians a))),
                         (Num (sin (radians a)), Num (cos (radians a)))))"

definition centroid_coords :: "real \<Rightarrow> fl list \<Rightarrow> fl list \<Rightarrow> (fl \<times> fl) list" where
  "centroid_coords a xs ys =
     dot (zip (map (\<lambda>x. fsub x (mean xs)) xs) (map (\<lambda>y. fsub y (mean ys)) ys))
         (T ((Num (cos (radians a)), Num (- sin (radians a))),
             (Num (sin (radians a)), Num (cos (radians a)))))"

definition scale_col :: "real \<Rightarrow> fl list \<Rightarrow> fl list" where
  "scale_col s xs = map (\<lambda>x. fadd (mean xs) (fmul (fsub x (mean xs)) (Num s))) xs"

text \<open>The unit square of the specification's scenario, as a data frame.\<close>

definition unit_square :: dataframe where
  "unit_square = [(''X'', [Num 0, Num 1, Num 1, Num 0]), (''Y'', [Num 0, Num 0, Num 1, Num 1])]"

text \<open>A data frame with the two coordinate columns and no rows.\<close>

definition empty_frame :: dataframe where
  "empty_frame = [(''X'', []), (''Y'', [])]"

text \<open>The unit square turned by a quarter, as a data frame to rotate back.\<close>

definition turned_square :: dataframe where
  "turned_square =
     [(''X'', [Num 0, Num 0, Num (- 1), Num (- 1)]), (''Y'', [Num 0, Num 1, Num 1, Num 0])]"

text \<open>
  What each transform does to one point, given the parameter and (for the two transforms
  about the centroid) the centroid of the whole point set.
\<close>

definition ledge_point :: "real \<Rightarrow> fl \<times> fl \<Rightarrow> fl \<times> fl" where
  "ledge_point a p =
     dot_row (T ((Num (cos (radians a)), Num (- sin (radians a))),
                 (Num (sin (radians a)), Num (cos (radians a))))) p"

definition centroid_point :: "real \<Rightarrow> fl \<Rightarrow> fl \<Rightarrow> fl \<times> fl \<Rightarrow> fl \<times> fl" where
  "centroid_point a cx cy p =
     (let q = ledge_point a (fsub (fst p) cx, fsub (snd p) cy)
      in (fadd (fst q) cx, fadd (snd q) cy))"

definition scale_point :: "real \<Rightarrow> fl \<Rightarrow> fl \<Rightarrow> fl \<times> fl \<Rightarrow> fl \<times> fl" where
  "scale_point s cx cy p =
     (fadd cx (fmul (fsub (fst p) cx) (Num s)), fadd cy (fmul (fsub (snd p) cy) (Num s)))"

text \<open>
  \<open>returns_new h r res\<close>: the call returned a reference to an object that did not exist in
  the store \<open>h\<close>, so not the input \<open>r\<close>, and every object of \<open>h\<close>, the input among them, is
  as it was.
\<close>

definition returns_new :: "heap \<Rightarrow> ref \<Rightarrow> (error + ref) \<times> heap \<Rightarrow> bool" where
  "returns_new h r res \<longleftrightarrow>
     fst res = Inr (length h) \<and> r \<noteq> length h \<and> length (snd res) = Suc (length h) \<and>
     take (length h) (snd res) = h \<and> snd res ! r = h ! r"

text \<open>The lengths of the two columns of the given names in the returned data frame.\<close>

definition out_lengths :: "(error + ref) \<times> heap \<Rightarrow> string \<Rightarrow> string \<Rightarrow> (nat \<times> nat) option" where
  "out_lengths res cx cy = map_option (\<lambda>c. (length (fst c), length (snd c))) (out_cols res cx cy)"

text \<open>The returned data frame, and the columns of a data frame under other names than two
  given ones, in their order.\<close>

definition out_frame :: "(error + ref) \<times> heap \<Rightarrow> dataframe option" where
  "out_frame res = (case fst res of Inl e \<Rightarrow> None | Inr r \<Rightarrow> Some (snd res ! r))"

definition other_cols :: "string \<Rightarrow> string \<Rightarrow> dataframe \<Rightarrow> dataframe" where
  "other_cols k1 k2 df = filter (\<lambda>c. fst c \<noteq> k1 \<and> fst c \<noteq> k2) df"

text \<open>A data frame that has a column beside the coordinates.\<close>

definition labelled_square :: dataframe where
  "labelled_square =
     [(''X'', [Num 0, Num 1, Num 1, Num 0]), (''Y'', [Num 0, Num 0, Num 1, Num 1]),
      (''Z'', [NaN, Num 7, Num 8, Num 9])]"

section \<open>The transforms in float64 arithmetic\<close>

text \<open>
  The definitions above compute with exact reals. The program computes with IEEE 754
  doubles: every operation returns the exact result rounded to the nearest number with a
  53-bit significand, a tie going to the even significand. \<open>round64\<close> is that rounding,
  without the bounds of the exponent (no overflow, no subnormal numbers): for \<open>x\<close> with
  \<open>2 ^ e \<le> \<bar>x\<bar> < 2 ^ (e + 1)\<close> the doubles around \<open>x\<close> are the multiples of
  \<open>2 ^ (e - 52)\<close>.
\<close>

definition round_even :: "real \<Rightarrow> int" where
  "round_even y =
     (let f = \<lfloor>y\<rfloor>; d = y - of_int f
      in if d < 1 / 2 then f else if 1 / 2 < d then f + 1 else if even f then f else f + 1)"

definition exponent :: "real \<Rightarrow> int" where
  "exponent x =
     (if 1 \<le> \<bar>x\<bar> then bitlen \<lfloor>\<bar>x\<bar>\<rfloor> - 1 else - bitlen (\<lceil>1 / \<bar>x\<bar>\<rceil> - 1))"

definition round64 :: "real \<Rightarrow> real" where
  "round64 x =
     (if x = 0 then 0
      else let q = 2 powi (exponent x - 52) in of_int (round_even (x / q)) * q)"

fun add64 :: "fl \<Rightarrow> fl \<Rightarrow> fl" where
  "add64 (Num a) (Num b) = Num (round64 (a + b))"
| "add64 _ _ = NaN"

fun sub64 :: "fl \<Rightarrow> fl \<Rightarrow> fl" where
  "sub64 (Num a) (Num b) = Num (round64 (a - b))"
| "sub64 _ _ = NaN"

fun mul64 :: "fl \<Rightarrow> fl \<Rightarrow> fl" where
  "mul64 (Num a) (Num b) = Num (round64 (a * b))"
| "mul64 _ _ = NaN"

text \<open>
  \<^verbatim>\<open>Series.mean()\<close> in doubles: the values that are not NaN are added up one after the
  other, each sum rounded, and the total is divided by their number. (For two values every
  order of summation gives the same total.)
\<close>

definition mean64 :: "fl list \<Rightarrow> fl" where
  "mean64 xs =
     (let vs = [v. Num v \<leftarrow> xs]
      in if vs = [] then NaN
         else Num (round64 (foldl (\<lambda>s v. round64 (s + v)) 0 vs / real (length vs))))"

text \<open>
  \<^verbatim>\<open>scale_airfoil\<close> (lines 76 to 98) with these operations in place of the exact ones;
  the scale factor is a double.
\<close>

definition scale_airfoil64 :: "ref \<Rightarrow> real \<Rightarrow> heap \<Rightarrow> (error + ref) \<times> heap" where
  "scale_airfoil64 df scale_factor h =
     (let (result_df, h1) = df_copy df h
      in case getitem (h1 ! result_df) ''X'' of Inl e \<Rightarrow> (Inl e, h1) | Inr xs \<Rightarrow>
         let centroid_x = mean64 xs
         in case getitem (h1 ! result_df) ''Y'' of Inl e \<Rightarrow> (Inl e, h1) | Inr ys \<Rightarrow>
         let centroid_y = mean64 ys
         in case store_col result_df ''X_scaled''
                   (map (\<lambda>x. add64 centroid_x (mul64 (sub64 x centroid_x) (Num scale_factor))) xs) h1 of
              Inl e \<Rightarrow> (Inl e, h1) | Inr h2 \<Rightarrow>
            case getitem (h2 ! result_df) ''Y'' of Inl e \<Rightarrow> (Inl e, h2) | Inr ys2 \<Rightarrow>
            case store_col result_df ''Y_scaled''
                   (map (\<lambda>y. add64 centroid_y (mul64 (sub64 y centroid_y) (Num scale_factor))) ys2) h2 of
              Inl e \<Rightarrow> (Inl e, h2) | Inr h3 \<Rightarrow>
            (Inr result_df, h3))"

definition centroid64 :: "fl list \<times> fl list \<Rightarrow> fl \<times> fl" where
  "centroid64 c = (mean64 (fst c), mean64 (snd c))"

text \<open>
  The two points (0.1, 0) and (0.7, 0) as a data frame: the decimal numbers 0.1 and 0.7
  are read as the doubles nearest to them.
\<close>

definition decimal_frame :: dataframe where
  "decimal_frame =
     [(''X'', [Num (round64 (1 / 10)), Num (round64 (7 / 10))]), (''Y'', [Num 0, Num 0])]"

section \<open>Evaluation helpers\<close>

lemma radians_90: "radians 90 = pi / 2"
  by (simp add: radians_def)


lemmas transform_defs =
  df_copy_def getitem_def column_stack_def store_col_def setitem_def nrows_def dot_def

section \<open>Columns and the store\<close>

lemma wf_col_length:
  assumes "wf_df df" and "map_of df n = Some c"
  shows "length c = nrows df"
proof -
  from assms(2) have "(n, c) \<in> set df" by (rule map_of_SomeD)
  with assms(1) show ?thesis by (auto simp: wf_df_def list_all_iff)
qed

lemma nrows_update:
  "df \<noteq> [] \<Longrightarrow> length v = nrows df \<Longrightarrow> nrows (AList.update k v df) = nrows df"
  by (cases df) (auto simp: nrows_def)

lemma setitem_ok:
  "length v = nrows df \<Longrightarrow> setitem df k v = Inr (AList.update k v df)"
  by (simp add: setitem_def)

lemma getitem_Inr: "getitem df n = Inr c \<longleftrightarrow> map_of df n = Some c"
  by (simp add: getitem_def split: option.splits)

lemma getitem_update:
  "getitem (AList.update k v df) n = (if n = k then Inr v else getitem df n)"
  by (simp add: getitem_def update_conv')

lemma length_dot: "length (dot coords m) = length coords"
  by (simp add: dot_def)

lemma store_col_fresh:
  "length v = nrows d \<Longrightarrow> store_col (length h) k v (h @ [d]) = Inr (h @ [AList.update k v d])"
  by (simp add: store_col_def setitem_ok)

lemma has_frame_lengths:
  assumes "has_frame h r xs ys"
  shows "length xs = nrows (h ! r)" and "length ys = nrows (h ! r)" and "h ! r \<noteq> []"
  using assms by (auto simp: has_frame_def getitem_Inr wf_col_length)

lemma holds_points_length:
  "holds_points h r xs ys \<Longrightarrow> length xs = length ys"
  using has_frame_lengths(1,2) [of h r "map Num xs" "map Num ys"]
  by (simp add: holds_points_def)

section \<open>What a call returns on a well-formed data frame\<close>

lemma twist_airfoil_ledge_run:
  assumes "has_frame h r xs ys"
  shows "twist_airfoil_ledge r a h =
           (Inr (length h),
            h @ [AList.update ''Y_twisted'' (map snd (ledge_coords a xs ys))
                   (AList.update ''X_twisted'' (map fst (ledge_coords a xs ys)) (h ! r))])"
proof -
  note len = has_frame_lengths [OF assms]
  from assms have gx: "getitem (h ! r) ''X'' = Inr xs" and gy: "getitem (h ! r) ''Y'' = Inr ys"
    by (simp_all add: has_frame_def)
  have l1: "length (map fst (ledge_coords a xs ys)) = nrows (h ! r)"
    by (simp add: ledge_coords_def length_dot len)
  have l2: "length (map snd (ledge_coords a xs ys)) =
              nrows (AList.update ''X_twisted'' (map fst (ledge_coords a xs ys)) (h ! r))"
    using l1 by (simp add: ledge_coords_def length_dot len nrows_update)
  show ?thesis
    unfolding twist_airfoil_ledge_def df_copy_def Let_def
    using gx gy len(1,2)
    by (simp add: column_stack_def store_col_fresh [OF l1] store_col_fresh [OF l2]
        ledge_coords_def [symmetric] del: T.simps)
qed

lemma twist_airfoil_centroid_run:
  assumes "has_frame h r xs ys"
  shows "twist_airfoil_centroid r a h =
           (Inr (length h),
            h @ [AList.update ''Y_twisted''
                   (map (\<lambda>p. fadd (snd p) (mean ys)) (centroid_coords a xs ys))
                   (AList.update ''X_twisted''
                      (map (\<lambda>p. fadd (fst p) (mean xs)) (centroid_coords a xs ys)) (h ! r))])"
proof -
  note len = has_frame_lengths [OF assms]
  from assms have gx: "getitem (h ! r) ''X'' = Inr xs" and gy: "getitem (h ! r) ''Y'' = Inr ys"
    by (simp_all add: has_frame_def)
  have l1: "length (map (\<lambda>p. fadd (fst p) (mean xs)) (centroid_coords a xs ys)) = nrows (h ! r)"
    by (simp add: centroid_coords_def length_dot len)
  have l2: "length (map (\<lambda>p. fadd (snd p) (mean ys)) (centroid_coords a xs ys)) =
              nrows (AList.update ''X_twisted''
                       (map (\<lambda>p. fadd (fst p) (mean xs)) (centroid_coords a xs ys)) (h ! r))"
    using l1 by (simp add: centroid_coords_def length_dot len nrows_update)
  show ?thesis
    unfolding twist_airfoil_centroid_def df_copy_def Let_def
    using gx gy len(1,2)
    by (simp add: column_stack_def store_col_fresh [OF l1] store_col_fresh [OF l2]
        centroid_coords_def [symmetric] del: T.simps)
qed

lemma scale_airfoil_run:
  assumes "has_frame h r xs ys"
  shows "scale_airfoil r s h =
           (Inr (length h),
            h @ [AList.update ''Y_scaled'' (scale_col s ys)
                   (AList.update ''X_scaled'' (scale_col s xs) (h ! r))])"
proof -
  note len = has_frame_lengths [OF assms]
  from assms have gx: "getitem (h ! r) ''X'' = Inr xs" and gy: "getitem (h ! r) ''Y'' = Inr ys"
    by (simp_all add: has_frame_def)
  have l1: "length (scale_col s xs) = nrows (h ! r)"
    by (simp add: scale_col_def len)
  have l2: "length (scale_col s ys) = nrows (AList.update ''X_scaled'' (scale_col s xs) (h ! r))"
    using l1 by (simp add: scale_col_def len nrows_update)
  show ?thesis
    unfolding scale_airfoil_def df_copy_def Let_def
    using gx gy
    by (simp add: store_col_fresh [OF l1] store_col_fresh [OF l2] getitem_update
        scale_col_def [symmetric])
qed

lemma out_cols_run:
  "k1 \<noteq> k2 \<Longrightarrow>
   out_cols (Inr (length h), h @ [AList.update k2 v2 (AList.update k1 v1 d)]) k1 k2 = Some (v1, v2)"
  by (simp add: out_cols_def getitem_update)

section \<open>Finite coordinates\<close>

lemma filter_Num: "[v. Num v \<leftarrow> map Num xs] = xs"
  by (induction xs) simp_all

lemma mean_Num: "mean (map Num xs) = (if xs = [] then NaN else Num (arith_mean xs))"
  unfolding mean_def filter_Num by (simp add: arith_mean_def)

lemma ledge_coords_Num:
  "ledge_coords a (map Num xs) (map Num ys) =
     map (\<lambda>p. (Num (fst (mat_vec (rotation (radians a)) p)),
               Num (snd (mat_vec (rotation (radians a)) p)))) (zip xs ys)"
  by (auto simp: ledge_coords_def dot_def rotation_def zip_map_map)

lemma centroid_coords_Num:
  assumes "xs \<noteq> []" and "ys \<noteq> []"
  shows "centroid_coords a (map Num xs) (map Num ys) =
     map (\<lambda>p. (Num (fst (mat_vec (rotation (radians a)) (fst p - arith_mean xs, snd p - arith_mean ys))),
               Num (snd (mat_vec (rotation (radians a)) (fst p - arith_mean xs, snd p - arith_mean ys)))))
       (zip xs ys)"
  using assms
  by (auto simp: centroid_coords_def dot_def rotation_def zip_map_map mean_Num)

lemma scale_col_Num:
  "scale_col s (map Num xs) = map (\<lambda>x. Num (arith_mean xs + (x - arith_mean xs) * s)) xs"
  by (cases "xs = []") (simp_all add: scale_col_def mean_Num)

lemma twist_airfoil_ledge_points:
  assumes "holds_points h r xs ys"
  shows "out_cols (twist_airfoil_ledge r a h) ''X_twisted'' ''Y_twisted'' =
           Some (map (\<lambda>p. Num (fst (mat_vec (rotation (radians a)) p))) (zip xs ys),
                 map (\<lambda>p. Num (snd (mat_vec (rotation (radians a)) p))) (zip xs ys))"
  using assms unfolding holds_points_def
  by (simp add: twist_airfoil_ledge_run out_cols_run ledge_coords_Num comp_def)

lemma twist_airfoil_centroid_points:
  assumes "holds_points h r xs ys"
  shows "out_cols (twist_airfoil_centroid r a h) ''X_twisted'' ''Y_twisted'' =
           Some (map (\<lambda>p. Num (fst (mat_vec (rotation (radians a))
                                   (fst p - arith_mean xs, snd p - arith_mean ys)) + arith_mean xs))
                   (zip xs ys),
                 map (\<lambda>p. Num (snd (mat_vec (rotation (radians a))
                                   (fst p - arith_mean xs, snd p - arith_mean ys)) + arith_mean ys))
                   (zip xs ys))"
proof (cases "xs = []")
  case True
  with holds_points_length [OF assms] have "ys = []" by simp
  with True assms show ?thesis
    unfolding holds_points_def
    by (simp add: twist_airfoil_centroid_run out_cols_run centroid_coords_def dot_def)
next
  case False
  with holds_points_length [OF assms] have "ys \<noteq> []" by auto
  with False assms show ?thesis
    unfolding holds_points_def
    by (simp add: twist_airfoil_centroid_run out_cols_run centroid_coords_Num mean_Num comp_def)
qed

lemma scale_airfoil_points:
  assumes "holds_points h r xs ys"
  shows "out_cols (scale_airfoil r s h) ''X_scaled'' ''Y_scaled'' =
           Some (map (\<lambda>x. Num (arith_mean xs + (x - arith_mean xs) * s)) xs,
                 map (\<lambda>y. Num (arith_mean ys + (y - arith_mean ys) * s)) ys)"
  using assms unfolding holds_points_def
  by (simp add: scale_airfoil_run out_cols_run scale_col_Num)

section \<open>The direction of a positive angle\<close>

text \<open>
  Claim C2. The docstring of \<^verbatim>\<open>twist_airfoil_ledge\<close> says that a positive angle is a
  clockwise twist, which would send the point (1, 0) to (0, -1) at 90 degrees. The code sends
  it to (0, 1): in the plot's axes, with y upwards, that is a turn counter-clockwise.
\<close>

theorem twist_airfoil_ledge_quarter_turn:
  "twist_airfoil_ledge 0 90 [[(''X'', [Num 1]), (''Y'', [Num 0])]] =
     (Inr 1, [[(''X'', [Num 1]), (''Y'', [Num 0])],
              [(''X'', [Num 1]), (''Y'', [Num 0]),
               (''X_twisted'', [Num 0]), (''Y_twisted'', [Num 1])]])"
  by (simp add: twist_airfoil_ledge_def transform_defs radians_90)

section \<open>Rotations and lists of points\<close>

lemma map_fst_zip_fun:
  "length xs = length ys \<Longrightarrow> map (\<lambda>p. f (fst p)) (zip xs ys) = map f xs"
  by (induction xs ys rule: list_induct2) simp_all

lemma map_snd_zip_fun:
  "length xs = length ys \<Longrightarrow> map (\<lambda>p. f (snd p)) (zip xs ys) = map f ys"
  by (induction xs ys rule: list_induct2) simp_all


lemma mat_vec_rotation_quarter: "mat_vec (rotation (pi / 2)) (x, y) = (- y, x)"
  by (simp add: rotation_def)

lemma mat_vec_rotation_inverse: "mat_vec (rotation (- th)) (mat_vec (rotation th) p) = p"
proof (cases p)
  case (Pair x y)
  have e: "cos th * cos th + sin th * sin th = 1"
    using sin_cos_squared_add2 [of th] by (simp add: power2_eq_square)
  have "cos th * (cos th * x - sin th * y) + sin th * (sin th * x + cos th * y) =
          (cos th * cos th + sin th * sin th) * x"
    by (simp only: algebra_simps)
  then have 1: "cos th * (cos th * x - sin th * y) + sin th * (sin th * x + cos th * y) = x"
    by (simp only: e mult_1_left)
  have "cos th * (sin th * x + cos th * y) - sin th * (cos th * x - sin th * y) =
          (cos th * cos th + sin th * sin th) * y"
    by (simp only: algebra_simps)
  then have 2: "cos th * (sin th * x + cos th * y) - sin th * (cos th * x - sin th * y) = y"
    by (simp only: e mult_1_left)
  show ?thesis
    using Pair 1 2 by (simp add: rotation_def)
qed

lemma holds_points_unit_square: "holds_points [unit_square] 0 [0, 1, 1, 0] [0, 0, 1, 1]"
  by (simp add: holds_points_def has_frame_def wf_df_def nrows_def getitem_def unit_square_def)

section \<open>Rotation about the origin\<close>

text \<open>
  Claim C1. On a point set of finite coordinates \<^verbatim>\<open>twist_airfoil_ledge\<close> stores, for each
  point (x, y), the product of the matrix [[cos th, -sin th], [sin th, cos th]] with the
  column vector (x, y), where th is the angle in radians: a rotation about (0, 0). For the
  unit square and 90 degrees the result is [(0,0), (0,1), (-1,1), (-1,0)], exactly so over
  the reals.
\<close>

theorem twist_airfoil_ledge_rotation_matrix:
  assumes "holds_points h r xs ys"
  shows "out_cols (twist_airfoil_ledge r a h) ''X_twisted'' ''Y_twisted'' =
           Some (map (\<lambda>p. Num (fst (mat_vec (rotation (radians a)) p))) (zip xs ys),
                 map (\<lambda>p. Num (snd (mat_vec (rotation (radians a)) p))) (zip xs ys)) \<and>
         (xs = [0, 1, 1, 0] \<and> ys = [0, 0, 1, 1] \<and> a = 90 \<longrightarrow>
            out_cols (twist_airfoil_ledge r a h) ''X_twisted'' ''Y_twisted'' =
              Some ([Num 0, Num 0, Num (- 1), Num (- 1)], [Num 0, Num 1, Num 1, Num 0]))"
  by (simp add: twist_airfoil_ledge_points [OF assms] radians_90 mat_vec_rotation_quarter)

theorem twist_airfoil_ledge_rotation_matrix_witness:
  "holds_points [unit_square] 0 [0, 1, 1, 0] [0, 0, 1, 1] \<and>
   out_cols (twist_airfoil_ledge 0 90 [unit_square]) ''X_twisted'' ''Y_twisted'' =
     Some ([Num 0, Num 0, Num (- 1), Num (- 1)], [Num 0, Num 1, Num 1, Num 0])"
  using twist_airfoil_ledge_rotation_matrix [OF holds_points_unit_square, of 90, THEN conjunct2]
    holds_points_unit_square
  by simp

section \<open>Concrete frames\<close>

lemma has_frame_empty_frame: "has_frame [empty_frame] 0 [] []"
  by (simp add: has_frame_def wf_df_def nrows_def getitem_def empty_frame_def)

lemma arith_mean_unit_square:
  "arith_mean [0, 1, 1, 0] = 1 / 2" "arith_mean [0, 0, 1, 1] = 1 / 2"
  by (simp_all add: arith_mean_def)

section \<open>Rotation about the centroid of an empty point set\<close>

text \<open>
  Claim C3, as the specification states it: on an empty point set \<^verbatim>\<open>twist_airfoil_centroid\<close>
  reports an EmptyInputError. The code has no such error: on a data frame with no rows the
  call returns normally.
\<close>

theorem twist_airfoil_centroid_empty_counterexample:
  "twist_airfoil_centroid 0 90 [[(''X'', []), (''Y'', [])]] =
     (Inr 1, [[(''X'', []), (''Y'', [])],
              [(''X'', []), (''Y'', []), (''X_twisted'', []), (''Y_twisted'', [])]])"
  by (simp add: twist_airfoil_centroid_def transform_defs)

text \<open>
  Claim C3, amended. On an empty point set \<^verbatim>\<open>twist_airfoil_centroid\<close> raises nothing and
  returns a new data frame whose two transformed columns are empty: the NaN centroid is never
  combined with a coordinate, so the output holds no NaN value.
\<close>

theorem twist_airfoil_centroid_empty:
  assumes "has_frame h r [] []"
  shows "fst (twist_airfoil_centroid r a h) = Inr (length h) \<and>
         out_cols (twist_airfoil_centroid r a h) ''X_twisted'' ''Y_twisted'' = Some ([], [])"
  by (simp add: twist_airfoil_centroid_run [OF assms] out_cols_run centroid_coords_def dot_def)

theorem twist_airfoil_centroid_empty_witness:
  "has_frame [empty_frame] 0 [] [] \<and>
   fst (twist_airfoil_centroid 0 90 [empty_frame]) = Inr 1 \<and>
   out_cols (twist_airfoil_centroid 0 90 [empty_frame]) ''X_twisted'' ''Y_twisted'' = Some ([], [])"
  using twist_airfoil_centroid_empty [OF has_frame_empty_frame, of 90] has_frame_empty_frame
  by simp

section \<open>Scaling about the centroid\<close>

text \<open>
  Claim C4. On a point set of finite coordinates and for every scale factor s,
  \<^verbatim>\<open>scale_airfoil\<close> stores centroid + (original - centroid) * s for each coordinate, the
  centroid being the arithmetic mean of the column. With s = 0 every output point is the
  centroid; with s negative the output is the reflection through the centroid scaled by the
  absolute value of s; the unit square with s = 2 gives
  [(-0.5,-0.5), (1.5,-0.5), (1.5,1.5), (-0.5,1.5)].
\<close>

theorem scale_airfoil_formula:
  assumes "holds_points h r xs ys"
  shows "out_cols (scale_airfoil r s h) ''X_scaled'' ''Y_scaled'' =
           Some (map (\<lambda>x. Num (arith_mean xs + (x - arith_mean xs) * s)) xs,
                 map (\<lambda>y. Num (arith_mean ys + (y - arith_mean ys) * s)) ys) \<and>
         (s = 0 \<longrightarrow>
            out_cols (scale_airfoil r s h) ''X_scaled'' ''Y_scaled'' =
              Some (map (\<lambda>x. Num (arith_mean xs)) xs, map (\<lambda>y. Num (arith_mean ys)) ys)) \<and>
         (s < 0 \<longrightarrow>
            out_cols (scale_airfoil r s h) ''X_scaled'' ''Y_scaled'' =
              Some (map (\<lambda>x. Num (arith_mean xs - (x - arith_mean xs) * \<bar>s\<bar>)) xs,
                    map (\<lambda>y. Num (arith_mean ys - (y - arith_mean ys) * \<bar>s\<bar>)) ys)) \<and>
         (xs = [0, 1, 1, 0] \<and> ys = [0, 0, 1, 1] \<and> s = 2 \<longrightarrow>
            out_cols (scale_airfoil r s h) ''X_scaled'' ''Y_scaled'' =
              Some ([Num (- 1 / 2), Num (3 / 2), Num (3 / 2), Num (- 1 / 2)],
                    [Num (- 1 / 2), Num (- 1 / 2), Num (3 / 2), Num (3 / 2)]))"
  by (simp add: scale_airfoil_points [OF assms] arith_mean_unit_square)

theorem scale_airfoil_formula_witness:
  "holds_points [unit_square] 0 [0, 1, 1, 0] [0, 0, 1, 1] \<and>
   out_cols (scale_airfoil 0 2 [unit_square]) ''X_scaled'' ''Y_scaled'' =
     Some ([Num (- 1 / 2), Num (3 / 2), Num (3 / 2), Num (- 1 / 2)],
           [Num (- 1 / 2), Num (- 1 / 2), Num (3 / 2), Num (3 / 2)])"
  using scale_airfoil_formula [OF holds_points_unit_square, of 2, THEN conjunct2, THEN conjunct2,
      THEN conjunct2]
    holds_points_unit_square
  by simp

section \<open>Evaluation in float64\<close>

text \<open>
  The rounding at work: a double stays as it is, a tie goes to the even significand, and
  1/10 is not a double.
\<close>

lemma round64_examples:
  "round64 1 = 1"
  "round64 (1 + 1 / 2 ^ 53) = 1"
  "round64 (1 + 3 / 2 ^ 53) = 1 + 4 / 2 ^ 53"
  "round64 (5 / 3) = 7505999378950827 / 2 ^ 52"
  "round64 (- (1 / 3)) = - (6004799503160661 / 2 ^ 54)"
  by code_simp+

lemma round64_decimals:
  "round64 (1 / 10) = 3602879701896397 / 36028797018963968"
  "round64 (7 / 10) = 3152519739159347 / 4503599627370496"
  by code_simp+

lemma round64_0: "round64 0 = 0"
  by (simp add: round64_def)

lemma mean64_zeros: "mean64 [Num 0, Num 0] = Num 0"
  by (simp add: mean64_def round64_0)

lemma scale64_zeros:
  "add64 (Num 0) (mul64 (sub64 (Num 0) (Num 0)) (Num s)) = Num 0"
  by (simp add: round64_0)

lemma mean64_decimals:
  "mean64 [Num (3602879701896397 / 36028797018963968), Num (3152519739159347 / 4503599627370496)] =
     Num (7205759403792793 / 18014398509481984)"
  by code_simp


lemma scale64_double_decimals:
  "add64 (Num (7205759403792793 / 18014398509481984))
     (mul64 (sub64 (Num (3602879701896397 / 36028797018963968))
                   (Num (7205759403792793 / 18014398509481984))) (Num 2)) =
   Num (- (3602879701896395 / 18014398509481984))"
  "add64 (Num (7205759403792793 / 18014398509481984))
     (mul64 (sub64 (Num (3152519739159347 / 4503599627370496))
                   (Num (7205759403792793 / 18014398509481984))) (Num 2)) =
   Num 1"
  by code_simp+

lemma mean64_doubled:
  "mean64 [Num (- (3602879701896395 / 18014398509481984)), Num 1] =
     Num (3602879701896397 / 9007199254740992)"
  by code_simp

section \<open>The neutral parameter\<close>




section \<open>The defaults of the user interface\<close>

text \<open>
  Claim C9. At startup the angle slider holds 0 and the scale slider holds a value within
  its range [0.1, 2.0]. The code asks for the initial value 0 for both sliders; for the scale
  slider that is below its minimum and the widget stores the minimum 0.1 instead.
\<close>

theorem Plotting_init_defaults:
  "val (angle_slider Plotting_init) = 0 \<and>
   val (scale_slider Plotting_init) = 1 / 10 \<and>
   valmin (scale_slider Plotting_init) = 1 / 10 \<and>
   valmax (scale_slider Plotting_init) = 2 \<and>
   valmin (scale_slider Plotting_init) \<le> val (scale_slider Plotting_init) \<and>
   val (scale_slider Plotting_init) \<le> valmax (scale_slider Plotting_init)"
  by (simp add: Plotting_init_def Slider_def set_active_def value_in_bounds_def)

section \<open>Sums and means of transformed columns\<close>

lemma sum_list_affine_zip:
  "length xs = length ys \<Longrightarrow>
   sum_list (map (\<lambda>p. a * fst p + b * snd p + c) (zip xs ys)) =
     a * sum_list xs + b * sum_list ys + c * real (length xs)"
  for a b c :: real
  by (induction xs ys rule: list_induct2) (simp_all add: algebra_simps)

lemma sum_list_affine:
  "sum_list (map (\<lambda>x. a * x + c) xs) = a * sum_list xs + c * real (length xs)"
  for a c :: real
  by (induction xs) (simp_all add: algebra_simps)

lemma sum_list_arith_mean:
  "xs \<noteq> [] \<Longrightarrow> sum_list xs = arith_mean xs * real (length xs)"
  by (simp add: arith_mean_def)

lemma arith_mean_scaled:
  assumes "xs \<noteq> []"
  shows "arith_mean (map (\<lambda>x. arith_mean xs + (x - arith_mean xs) * s) xs) = arith_mean xs"
proof -
  let ?m = "arith_mean xs" and ?n = "real (length xs)"
  from assms have n: "?n \<noteq> 0" by simp
  have "(\<lambda>x. ?m + (x - ?m) * s) = (\<lambda>x. s * x + (?m - ?m * s))"
    by (rule ext) (simp add: algebra_simps)
  then have "sum_list (map (\<lambda>x. ?m + (x - ?m) * s) xs) = s * sum_list xs + (?m - ?m * s) * ?n"
    by (simp only: sum_list_affine)
  also have "\<dots> = s * (?m * ?n) + (?m - ?m * s) * ?n"
    by (simp only: sum_list_arith_mean [OF assms, symmetric])
  also have "\<dots> = ?m * ?n"
    by (simp add: algebra_simps)
  finally have "sum_list (map (\<lambda>x. ?m + (x - ?m) * s) xs) = ?m * ?n" .
  then show ?thesis
    using n by (simp add: arith_mean_def [of "map f xs" for f])
qed

lemma arith_mean_rotated:
  assumes "length xs = length ys" and "xs \<noteq> []"
  shows "arith_mean (map (\<lambda>p. a * (fst p - arith_mean xs) + b * (snd p - arith_mean ys) + c)
                       (zip xs ys)) = c"
proof -
  let ?mx = "arith_mean xs" and ?my = "arith_mean ys" and ?n = "real (length xs)"
  from assms have n: "?n \<noteq> 0" and ys: "ys \<noteq> []" by auto
  have "(\<lambda>p. a * (fst p - ?mx) + b * (snd p - ?my) + c) =
        (\<lambda>p. a * fst p + b * snd p + (c - a * ?mx - b * ?my))"
    by (rule ext) (simp add: algebra_simps)
  then have "sum_list (map (\<lambda>p. a * (fst p - ?mx) + b * (snd p - ?my) + c) (zip xs ys)) =
             a * sum_list xs + b * sum_list ys + (c - a * ?mx - b * ?my) * ?n"
    by (simp only: sum_list_affine_zip [OF assms(1)])
  also have "\<dots> = a * (?mx * ?n) + b * (?my * ?n) + (c - a * ?mx - b * ?my) * ?n"
    using sum_list_arith_mean [OF assms(2)] sum_list_arith_mean [OF ys] assms(1) by simp
  also have "\<dots> = c * ?n"
    by (simp add: algebra_simps)
  finally have "sum_list (map (\<lambda>p. a * (fst p - ?mx) + b * (snd p - ?my) + c) (zip xs ys)) = c * ?n" .
  then show ?thesis
    using n assms(1) by (simp add: arith_mean_def [of "map f zs" for f zs])
qed

lemma mean_map_Num_fun:
  "zs \<noteq> [] \<Longrightarrow> mean (map (\<lambda>z. Num (f z)) zs) = Num (arith_mean (map f zs))"
  using mean_Num [of "map f zs"] by (simp add: comp_def)

lemma mat_vec_fst: "fst (mat_vec (rotation th) (u, v)) = cos th * u + (- sin th) * v"
  by (simp add: rotation_def)

lemma mat_vec_snd: "snd (mat_vec (rotation th) (u, v)) = sin th * u + cos th * v"
  by (simp add: rotation_def)

lemma centroid_Num:
  "xs \<noteq> [] \<Longrightarrow> ys \<noteq> [] \<Longrightarrow>
   centroid (map Num xs, map Num ys) = (Num (arith_mean xs), Num (arith_mean ys))"
  by (simp add: centroid_def mean_Num)

section \<open>The centroid is preserved\<close>

text \<open>
  Claim C6, as the specification states it: the centroid of the scaled point set equals
  the centroid of the input. In the doubles of the program this fails: for the points
  (0.1, 0) and (0.7, 0) and the factor 2 the mean of the x's is 0.39999999999999997 before
  and 0.4 after.
\<close>

theorem scale_airfoil64_centroid_counterexample:
  "map_option centroid64 (out_cols (scale_airfoil64 0 2 [decimal_frame]) ''X'' ''Y'') =
     Some (Num (7205759403792793 / 18014398509481984), Num 0) \<and>
   out_cols (scale_airfoil64 0 2 [decimal_frame]) ''X_scaled'' ''Y_scaled'' =
     Some ([Num (- (3602879701896395 / 18014398509481984)), Num 1], [Num 0, Num 0]) \<and>
   map_option centroid64 (out_cols (scale_airfoil64 0 2 [decimal_frame]) ''X_scaled'' ''Y_scaled'') =
     Some (Num (3602879701896397 / 9007199254740992), Num 0) \<and>
   map_option centroid64 (out_cols (scale_airfoil64 0 2 [decimal_frame]) ''X_scaled'' ''Y_scaled'') \<noteq>
     map_option centroid64 (out_cols (scale_airfoil64 0 2 [decimal_frame]) ''X'' ''Y'')"
proof -
  have cols: "out_cols (scale_airfoil64 0 2 [decimal_frame]) ''X'' ''Y'' =
      Some ([Num (3602879701896397 / 36028797018963968),
             Num (3152519739159347 / 4503599627370496)], [Num 0, Num 0])"
    and outs: "out_cols (scale_airfoil64 0 2 [decimal_frame]) ''X_scaled'' ''Y_scaled'' =
      Some ([Num (- (3602879701896395 / 18014398509481984)), Num 1], [Num 0, Num 0])"
    by (simp_all add: scale_airfoil64_def transform_defs out_cols_def decimal_frame_def
        round64_decimals mean64_zeros mean64_decimals scale64_zeros scale64_double_decimals Let_def
        del: add64.simps mul64.simps sub64.simps)
  show ?thesis
    unfolding cols outs
    by (simp add: centroid64_def mean64_zeros mean64_decimals mean64_doubled)
qed

text \<open>
  Claim C6, amended. In exact real arithmetic, for a non-empty point set of finite
  coordinates, every scale factor and every angle, the centroid (the arithmetic mean of the
  x's and of the y's) of the columns that \<^verbatim>\<open>scale_airfoil\<close> and
  \<^verbatim>\<open>twist_airfoil_centroid\<close> store equals the centroid of the input columns.
\<close>

theorem centroid_preserved:
  assumes "holds_points h r xs ys" and "xs \<noteq> []"
  shows "map_option centroid (out_cols (scale_airfoil r s h) ''X_scaled'' ''Y_scaled'') =
           Some (centroid (map Num xs, map Num ys)) \<and>
         map_option centroid (out_cols (twist_airfoil_centroid r a h) ''X_twisted'' ''Y_twisted'') =
           Some (centroid (map Num xs, map Num ys)) \<and>
         centroid (map Num xs, map Num ys) = (Num (arith_mean xs), Num (arith_mean ys))"
proof -
  note len = holds_points_length [OF assms(1)]
  from len assms(2) have ys: "ys \<noteq> []" by auto
  from len assms(2) have zs: "zip xs ys \<noteq> []" by (cases xs; cases ys) simp_all
  have c: "centroid (map Num xs, map Num ys) = (Num (arith_mean xs), Num (arith_mean ys))"
    by (rule centroid_Num [OF assms(2) ys])
  have "map_option centroid (out_cols (scale_airfoil r s h) ''X_scaled'' ''Y_scaled'') =
          Some (Num (arith_mean xs), Num (arith_mean ys))"
    by (simp add: scale_airfoil_points [OF assms(1)] centroid_def mean_map_Num_fun assms(2) ys
        arith_mean_scaled)
  moreover have "map_option centroid
          (out_cols (twist_airfoil_centroid r a h) ''X_twisted'' ''Y_twisted'') =
          Some (Num (arith_mean xs), Num (arith_mean ys))"
  proof -
    have "mean (map (\<lambda>p. Num (fst (mat_vec (rotation (radians a))
                 (fst p - arith_mean xs, snd p - arith_mean ys)) + arith_mean xs)) (zip xs ys)) =
          Num (arith_mean xs)"
      by (simp only: mat_vec_fst mean_map_Num_fun [OF zs] arith_mean_rotated [OF len assms(2)])
    moreover have "mean (map (\<lambda>p. Num (snd (mat_vec (rotation (radians a))
                 (fst p - arith_mean xs, snd p - arith_mean ys)) + arith_mean ys)) (zip xs ys)) =
          Num (arith_mean ys)"
      by (simp only: mat_vec_snd mean_map_Num_fun [OF zs] arith_mean_rotated [OF len assms(2)])
    ultimately show ?thesis
      by (simp add: twist_airfoil_centroid_points [OF assms(1)] centroid_def)
  qed
  ultimately show ?thesis
    using c by simp
qed

theorem centroid_preserved_witness:
  "holds_points [unit_square] 0 [0, 1, 1, 0] [0, 0, 1, 1] \<and> [0, 1, 1, 0] \<noteq> ([] :: real list) \<and>
   map_option centroid (out_cols (scale_airfoil 0 2 [unit_square]) ''X_scaled'' ''Y_scaled'') =
     Some (Num (1 / 2), Num (1 / 2)) \<and>
   map_option centroid
     (out_cols (twist_airfoil_centroid 0 90 [unit_square]) ''X_twisted'' ''Y_twisted'') =
     Some (Num (1 / 2), Num (1 / 2))"
  using centroid_preserved [OF holds_points_unit_square, of 2 90] holds_points_unit_square
  by (auto simp add: arith_mean_unit_square)

section \<open>Rotating back\<close>

text \<open>
  Claim C7. Let \<^verbatim>\<open>twist_airfoil_ledge\<close> with angle a turn a point set of finite coordinates,
  and let a data frame carry the resulting coordinates as its X and Y columns. Then
  \<^verbatim>\<open>twist_airfoil_ledge\<close> with angle -a on that frame stores the original point set
  (exactly, over the reals).
\<close>

theorem twist_airfoil_ledge_inverse:
  assumes "holds_points h r xs ys"
    and "out_cols (twist_airfoil_ledge r a h) ''X_twisted'' ''Y_twisted'' = Some (ox, oy)"
    and "has_frame h2 r2 ox oy"
  shows "out_cols (twist_airfoil_ledge r2 (- a) h2) ''X_twisted'' ''Y_twisted'' =
           Some (map Num xs, map Num ys)"
proof -
  let ?R = "mat_vec (rotation (radians a))"
  note len = holds_points_length [OF assms(1)]
  from assms(1,2) have ox: "ox = map Num (map (\<lambda>p. fst (?R p)) (zip xs ys))"
    and oy: "oy = map Num (map (\<lambda>p. snd (?R p)) (zip xs ys))"
    by (simp_all add: twist_airfoil_ledge_points comp_def)
  from assms(3) have hp: "holds_points h2 r2 (map (\<lambda>p. fst (?R p)) (zip xs ys))
                                          (map (\<lambda>p. snd (?R p)) (zip xs ys))"
    by (simp add: holds_points_def ox oy)
  have z: "zip (map (\<lambda>p. fst (?R p)) (zip xs ys)) (map (\<lambda>p. snd (?R p)) (zip xs ys)) =
             map ?R (zip xs ys)"
    by (simp add: zip_map_map zip_same_conv_map)
  have undo: "mat_vec (rotation (radians (- a))) (?R p) = p" for p
    using mat_vec_rotation_inverse [of "radians a" p] by (simp add: radians_def)
  have "map (\<lambda>p. Num (fst (mat_vec (rotation (radians (- a))) p))) (map ?R (zip xs ys)) =
          map (\<lambda>p. Num (fst p)) (zip xs ys)"
    by (simp add: comp_def undo)
  then have fx: "map (\<lambda>p. Num (fst (mat_vec (rotation (radians (- a))) p))) (map ?R (zip xs ys)) =
          map Num xs"
    by (simp only: map_fst_zip_fun [OF len])
  have "map (\<lambda>p. Num (snd (mat_vec (rotation (radians (- a))) p))) (map ?R (zip xs ys)) =
          map (\<lambda>p. Num (snd p)) (zip xs ys)"
    by (simp add: comp_def undo)
  then have fy: "map (\<lambda>p. Num (snd (mat_vec (rotation (radians (- a))) p))) (map ?R (zip xs ys)) =
          map Num ys"
    by (simp only: map_snd_zip_fun [OF len])
  show ?thesis
    by (simp only: twist_airfoil_ledge_points [OF hp] z fx fy)
qed

lemma has_frame_turned_square:
  "has_frame [turned_square] 0 [Num 0, Num 0, Num (- 1), Num (- 1)] [Num 0, Num 1, Num 1, Num 0]"
  by (simp add: has_frame_def wf_df_def nrows_def getitem_def turned_square_def)

lemma unit_square_turned:
  "out_cols (twist_airfoil_ledge 0 90 [unit_square]) ''X_twisted'' ''Y_twisted'' =
     Some ([Num 0, Num 0, Num (- 1), Num (- 1)], [Num 0, Num 1, Num 1, Num 0])"
  by (simp add: twist_airfoil_ledge_points [OF holds_points_unit_square] radians_90
      mat_vec_rotation_quarter)

theorem twist_airfoil_ledge_inverse_witness:
  "holds_points [unit_square] 0 [0, 1, 1, 0] [0, 0, 1, 1] \<and>
   out_cols (twist_airfoil_ledge 0 90 [unit_square]) ''X_twisted'' ''Y_twisted'' =
     Some ([Num 0, Num 0, Num (- 1), Num (- 1)], [Num 0, Num 1, Num 1, Num 0]) \<and>
   has_frame [turned_square] 0 [Num 0, Num 0, Num (- 1), Num (- 1)] [Num 0, Num 1, Num 1, Num 0] \<and>
   out_cols (twist_airfoil_ledge 0 (- 90) [turned_square]) ''X_twisted'' ''Y_twisted'' =
     Some ([Num 0, Num 1, Num 1, Num 0], [Num 0, Num 0, Num 1, Num 1])"
  using twist_airfoil_ledge_inverse [OF holds_points_unit_square unit_square_turned
      has_frame_turned_square]
    holds_points_unit_square unit_square_turned has_frame_turned_square
  by simp

section \<open>The returned frame, point by point\<close>

lemma ledge_coords_pointwise: "ledge_coords a xs ys = map (ledge_point a) (zip xs ys)"
  by (simp add: ledge_coords_def dot_def ledge_point_def del: T.simps)

lemma zip_fst_snd: "zip (map fst ps) (map snd ps) = ps"
  by (induction ps) simp_all

lemma zip_fst_snd_comp: "zip (map (fst \<circ> f) ps) (map (snd \<circ> f) ps) = map f ps"
  by (induction ps) simp_all

lemma centroid_cols_pointwise:
  "length xs = length ys \<Longrightarrow>
   zip (map (\<lambda>p. fadd (fst p) cx) (dot (zip (map (\<lambda>x. fsub x cx) xs) (map (\<lambda>y. fsub y cy) ys)) m))
       (map (\<lambda>p. fadd (snd p) cy) (dot (zip (map (\<lambda>x. fsub x cx) xs) (map (\<lambda>y. fsub y cy) ys)) m)) =
   map (\<lambda>p. (fadd (fst (dot_row m (fsub (fst p) cx, fsub (snd p) cy))) cx,
             fadd (snd (dot_row m (fsub (fst p) cx, fsub (snd p) cy))) cy)) (zip xs ys)"
  by (induction xs ys rule: list_induct2) (simp_all add: dot_def)

lemma scale_cols_pointwise:
  "length xs = length ys \<Longrightarrow>
   zip (map (\<lambda>x. fadd cx (fmul (fsub x cx) s)) xs) (map (\<lambda>y. fadd cy (fmul (fsub y cy) s)) ys) =
   map (\<lambda>p. (fadd cx (fmul (fsub (fst p) cx) s), fadd cy (fmul (fsub (snd p) cy) s))) (zip xs ys)"
  by (induction xs ys rule: list_induct2) simp_all

lemma returns_new_run:
  "r < length h \<Longrightarrow> returns_new h r (Inr (length h), h @ [d])"
  by (simp add: returns_new_def nth_append)

lemma has_frame_equal_lengths:
  "has_frame h r xs ys \<Longrightarrow> length xs = length ys"
  using has_frame_lengths(1,2) [of h r xs ys] by simp

lemma has_frame_live: "has_frame h r xs ys \<Longrightarrow> r < length h"
  by (simp add: has_frame_def)

lemma twist_airfoil_ledge_frame:
  assumes "has_frame h r xs ys"
  shows "returns_new h r (twist_airfoil_ledge r a h)"
    and "out_points (twist_airfoil_ledge r a h) ''X_twisted'' ''Y_twisted'' =
           Some (map (ledge_point a) (zip xs ys))"
    and "out_lengths (twist_airfoil_ledge r a h) ''X_twisted'' ''Y_twisted'' =
           Some (length xs, length xs)"
proof -
  note run = twist_airfoil_ledge_run [OF assms]
  note len = has_frame_equal_lengths [OF assms]
  show "returns_new h r (twist_airfoil_ledge r a h)"
    unfolding run by (rule returns_new_run [OF has_frame_live [OF assms]])
  show "out_points (twist_airfoil_ledge r a h) ''X_twisted'' ''Y_twisted'' =
           Some (map (ledge_point a) (zip xs ys))"
    unfolding run out_points_def
    by (simp add: out_cols_run zip_fst_snd_comp ledge_coords_pointwise)
  show "out_lengths (twist_airfoil_ledge r a h) ''X_twisted'' ''Y_twisted'' =
           Some (length xs, length xs)"
    unfolding run out_lengths_def
    by (simp add: out_cols_run ledge_coords_pointwise len)
qed

lemma twist_airfoil_centroid_frame:
  assumes "has_frame h r xs ys"
  shows "returns_new h r (twist_airfoil_centroid r a h)"
    and "out_points (twist_airfoil_centroid r a h) ''X_twisted'' ''Y_twisted'' =
           Some (map (centroid_point a (mean xs) (mean ys)) (zip xs ys))"
    and "out_lengths (twist_airfoil_centroid r a h) ''X_twisted'' ''Y_twisted'' =
           Some (length xs, length xs)"
proof -
  note run = twist_airfoil_centroid_run [OF assms]
  note len = has_frame_equal_lengths [OF assms]
  show "returns_new h r (twist_airfoil_centroid r a h)"
    unfolding run by (rule returns_new_run [OF has_frame_live [OF assms]])
  show "out_points (twist_airfoil_centroid r a h) ''X_twisted'' ''Y_twisted'' =
           Some (map (centroid_point a (mean xs) (mean ys)) (zip xs ys))"
    unfolding run out_points_def
    by (simp add: out_cols_run centroid_coords_def centroid_cols_pointwise [OF len]
        centroid_point_def [abs_def] ledge_point_def Let_def del: T.simps)
  show "out_lengths (twist_airfoil_centroid r a h) ''X_twisted'' ''Y_twisted'' =
           Some (length xs, length xs)"
    unfolding run out_lengths_def
    by (simp add: out_cols_run centroid_coords_def length_dot len)
qed

lemma scale_airfoil_frame:
  assumes "has_frame h r xs ys"
  shows "returns_new h r (scale_airfoil r s h)"
    and "out_points (scale_airfoil r s h) ''X_scaled'' ''Y_scaled'' =
           Some (map (scale_point s (mean xs) (mean ys)) (zip xs ys))"
    and "out_lengths (scale_airfoil r s h) ''X_scaled'' ''Y_scaled'' =
           Some (length xs, length xs)"
proof -
  note run = scale_airfoil_run [OF assms]
  note len = has_frame_equal_lengths [OF assms]
  show "returns_new h r (scale_airfoil r s h)"
    unfolding run by (rule returns_new_run [OF has_frame_live [OF assms]])
  show "out_points (scale_airfoil r s h) ''X_scaled'' ''Y_scaled'' =
           Some (map (scale_point s (mean xs) (mean ys)) (zip xs ys))"
    unfolding run out_points_def
    by (simp add: out_cols_run scale_col_def scale_cols_pointwise [OF len]
        scale_point_def [abs_def])
  show "out_lengths (scale_airfoil r s h) ''X_scaled'' ''Y_scaled'' =
           Some (length xs, length xs)"
    unfolding run out_lengths_def
    by (simp add: out_cols_run scale_col_def len)
qed

lemma has_frame_labelled_square:
  "has_frame [labelled_square] 0 [Num 0, Num 1, Num 1, Num 0] [Num 0, Num 0, Num 1, Num 1]"
  by (simp add: has_frame_def wf_df_def nrows_def getitem_def labelled_square_def)

text \<open>
  Whatever the input, and also when a call raises, the store after the call is the store
  before it with one more object: no transform writes to an object that existed.
\<close>

lemma store_col_last:
  "store_col (length h) k v (h @ [d]) = Inr h2 \<Longrightarrow> \<exists>d'. h2 = h @ [d']"
  by (auto simp: store_col_def split: sum.splits)

lemma twist_airfoil_ledge_store:
  "\<exists>d. snd (twist_airfoil_ledge r a h) = h @ [d]"
  unfolding twist_airfoil_ledge_def df_copy_def Let_def
  by (auto split: sum.splits dest!: store_col_last simp del: T.simps)

lemma twist_airfoil_centroid_store:
  "\<exists>d. snd (twist_airfoil_centroid r a h) = h @ [d]"
  unfolding twist_airfoil_centroid_def df_copy_def Let_def
  by (auto split: sum.splits dest!: store_col_last simp del: T.simps)

lemma scale_airfoil_store:
  "\<exists>d. snd (scale_airfoil r s h) = h @ [d]"
  unfolding scale_airfoil_def df_copy_def Let_def
  by (auto split: sum.splits dest!: store_col_last)

section \<open>The input is left alone\<close>

text \<open>
  Claim C8. For a data frame with X and Y columns (of any float values) and every parameter,
  each of the three transforms returns a reference to a new object and leaves every object
  that existed, the input among them, as it was; the transformed columns have the length of
  the input columns, and point i of the output is a function of point i of the input (and of
  the parameter and the centroid).
\<close>

theorem transforms_return_new_frame:
  assumes "has_frame h r xs ys"
  shows "length xs = length ys \<and> length (zip xs ys) = length xs \<and>
         returns_new h r (twist_airfoil_ledge r a h) \<and>
         out_points (twist_airfoil_ledge r a h) ''X_twisted'' ''Y_twisted'' =
           Some (map (ledge_point a) (zip xs ys)) \<and>
         out_lengths (twist_airfoil_ledge r a h) ''X_twisted'' ''Y_twisted'' =
           Some (length xs, length xs) \<and>
         returns_new h r (twist_airfoil_centroid r a h) \<and>
         out_points (twist_airfoil_centroid r a h) ''X_twisted'' ''Y_twisted'' =
           Some (map (centroid_point a (mean xs) (mean ys)) (zip xs ys)) \<and>
         out_lengths (twist_airfoil_centroid r a h) ''X_twisted'' ''Y_twisted'' =
           Some (length xs, length xs) \<and>
         returns_new h r (scale_airfoil r s h) \<and>
         out_points (scale_airfoil r s h) ''X_scaled'' ''Y_scaled'' =
           Some (map (scale_point s (mean xs) (mean ys)) (zip xs ys)) \<and>
         out_lengths (scale_airfoil r s h) ''X_scaled'' ''Y_scaled'' =
           Some (length xs, length xs)"
proof -
  have "length xs = length ys"
    by (rule has_frame_equal_lengths [OF assms])
  moreover from this have "length (zip xs ys) = length xs"
    by simp
  ultimately show ?thesis
    using twist_airfoil_ledge_frame [OF assms, of a] twist_airfoil_centroid_frame [OF assms, of a]
      scale_airfoil_frame [OF assms, of s]
    by (intro conjI)
qed

theorem transforms_return_new_frame_witness:
  "has_frame [labelled_square] 0 [Num 0, Num 1, Num 1, Num 0] [Num 0, Num 0, Num 1, Num 1] \<and>
   returns_new [labelled_square] 0 (twist_airfoil_ledge 0 90 [labelled_square]) \<and>
   out_lengths (twist_airfoil_ledge 0 90 [labelled_square]) ''X_twisted'' ''Y_twisted'' =
     Some (4, 4) \<and>
   returns_new [labelled_square] 0 (twist_airfoil_centroid 0 90 [labelled_square]) \<and>
   out_lengths (twist_airfoil_centroid 0 90 [labelled_square]) ''X_twisted'' ''Y_twisted'' =
     Some (4, 4) \<and>
   returns_new [labelled_square] 0 (scale_airfoil 0 2 [labelled_square]) \<and>
   out_lengths (scale_airfoil 0 2 [labelled_square]) ''X_scaled'' ''Y_scaled'' = Some (4, 4)"
  using transforms_return_new_frame [OF has_frame_labelled_square, of 90 2]
    has_frame_labelled_square
  by simp

section \<open>The original columns in the result\<close>

lemma update_new_column:
  "k \<notin> fst ` set al \<Longrightarrow> AList.update k v al = al @ [(k, v)]"
  by (induction al) auto

lemma filter_update_other:
  "\<not> P k \<Longrightarrow> filter (\<lambda>c. P (fst c)) (AList.update k v al) = filter (\<lambda>c. P (fst c)) al"
  by (induction al) auto

lemma other_cols_update2:
  "other_cols k1 k2 (AList.update k2 v2 (AList.update k1 v1 d)) = other_cols k1 k2 d"
  unfolding other_cols_def
  using filter_update_other [of "\<lambda>n. n \<noteq> k1 \<and> n \<noteq> k2" k2 v2 "AList.update k1 v1 d"]
    filter_update_other [of "\<lambda>n. n \<noteq> k1 \<and> n \<noteq> k2" k1 v1 d]
  by simp

lemma out_cols_kept:
  assumes "getitem d n1 = Inr a" and "getitem d n2 = Inr b"
    and "n1 \<noteq> k1" and "n1 \<noteq> k2" and "n2 \<noteq> k1" and "n2 \<noteq> k2"
  shows "out_cols (Inr (length h), h @ [AList.update k2 v2 (AList.update k1 v1 d)]) n1 n2 =
           Some (a, b)"
  using assms by (simp add: out_cols_def getitem_update)

lemma out_frame_run: "out_frame (Inr (length h), h @ [d]) = Some d"
  by (simp add: out_frame_def)

lemma update2_new_columns:
  assumes "k1 \<notin> fst ` set d" and "k2 \<notin> fst ` set d" and "k1 \<noteq> k2"
  shows "AList.update k2 v2 (AList.update k1 v1 d) = d @ [(k1, v1), (k2, v2)]"
proof -
  have "AList.update k1 v1 d = d @ [(k1, v1)]"
    by (rule update_new_column [OF assms(1)])
  moreover from assms(2,3) have "k2 \<notin> fst ` set (d @ [(k1, v1)])"
    by auto
  ultimately show ?thesis
    by (simp add: update_new_column)
qed

lemma run_keeps_columns:
  assumes res: "res = (Inr (length h),
                       h @ [AList.update k2 v2 (AList.update k1 v1 (h ! r))])"
    and fr: "has_frame h r xs ys"
    and ks: "k1 \<noteq> k2" "''X'' \<noteq> k1" "''X'' \<noteq> k2" "''Y'' \<noteq> k1" "''Y'' \<noteq> k2"
  shows "out_cols res ''X'' ''Y'' = Some (xs, ys) \<and>
         out_cols res k1 k2 = Some (v1, v2) \<and>
         map_option (other_cols k1 k2) (out_frame res) = Some (other_cols k1 k2 (h ! r)) \<and>
         (k1 \<notin> fst ` set (h ! r) \<and> k2 \<notin> fst ` set (h ! r) \<longrightarrow>
            out_frame res = Some (h ! r @ [(k1, v1), (k2, v2)]))"
proof -
  from fr have gx: "getitem (h ! r) ''X'' = Inr xs" and gy: "getitem (h ! r) ''Y'' = Inr ys"
    by (simp_all add: has_frame_def)
  have "out_cols res ''X'' ''Y'' = Some (xs, ys)"
    unfolding res by (rule out_cols_kept [OF gx gy ks(2-5)])
  moreover have "out_cols res k1 k2 = Some (v1, v2)"
    unfolding res by (rule out_cols_run [OF ks(1)])
  moreover have "map_option (other_cols k1 k2) (out_frame res) = Some (other_cols k1 k2 (h ! r))"
    unfolding res by (simp add: out_frame_run other_cols_update2)
  moreover have "k1 \<notin> fst ` set (h ! r) \<and> k2 \<notin> fst ` set (h ! r) \<longrightarrow>
            out_frame res = Some (h ! r @ [(k1, v1), (k2, v2)])"
    unfolding res by (simp add: out_frame_run update2_new_columns [OF _ _ ks(1)])
  ultimately show ?thesis
    by (intro conjI)
qed

lemma other_cols_labelled_square:
  "other_cols ''X_twisted'' ''Y_twisted'' labelled_square = labelled_square"
  "other_cols ''X_scaled'' ''Y_scaled'' labelled_square = labelled_square"
  by (simp_all add: other_cols_def labelled_square_def)

text \<open>
  Claim C10. The data frame that each transform returns has the X and Y columns of the
  input, unchanged, and every other column of the input that is not named like an output
  column, in the same order. The transformed coordinates are under the names X_twisted and
  Y_twisted (the two rotations) or X_scaled and Y_scaled (scaling); when the input has no
  columns of these names they are two new columns after the input's.
\<close>

theorem transforms_keep_original_columns:
  assumes "has_frame h r xs ys"
  shows "(out_cols (twist_airfoil_ledge r a h) ''X'' ''Y'' = Some (xs, ys) \<and>
          out_cols (twist_airfoil_ledge r a h) ''X_twisted'' ''Y_twisted'' =
            Some (map fst (ledge_coords a xs ys), map snd (ledge_coords a xs ys)) \<and>
          map_option (other_cols ''X_twisted'' ''Y_twisted'') (out_frame (twist_airfoil_ledge r a h)) =
            Some (other_cols ''X_twisted'' ''Y_twisted'' (h ! r)) \<and>
          (''X_twisted'' \<notin> fst ` set (h ! r) \<and> ''Y_twisted'' \<notin> fst ` set (h ! r) \<longrightarrow>
             out_frame (twist_airfoil_ledge r a h) =
               Some (h ! r @ [(''X_twisted'', map fst (ledge_coords a xs ys)),
                              (''Y_twisted'', map snd (ledge_coords a xs ys))]))) \<and>
         (out_cols (twist_airfoil_centroid r a h) ''X'' ''Y'' = Some (xs, ys) \<and>
          out_cols (twist_airfoil_centroid r a h) ''X_twisted'' ''Y_twisted'' =
            Some (map (\<lambda>p. fadd (fst p) (mean xs)) (centroid_coords a xs ys),
                  map (\<lambda>p. fadd (snd p) (mean ys)) (centroid_coords a xs ys)) \<and>
          map_option (other_cols ''X_twisted'' ''Y_twisted'')
              (out_frame (twist_airfoil_centroid r a h)) =
            Some (other_cols ''X_twisted'' ''Y_twisted'' (h ! r)) \<and>
          (''X_twisted'' \<notin> fst ` set (h ! r) \<and> ''Y_twisted'' \<notin> fst ` set (h ! r) \<longrightarrow>
             out_frame (twist_airfoil_centroid r a h) =
               Some (h ! r @
                 [(''X_twisted'', map (\<lambda>p. fadd (fst p) (mean xs)) (centroid_coords a xs ys)),
                  (''Y_twisted'', map (\<lambda>p. fadd (snd p) (mean ys)) (centroid_coords a xs ys))]))) \<and>
         (out_cols (scale_airfoil r s h) ''X'' ''Y'' = Some (xs, ys) \<and>
          out_cols (scale_airfoil r s h) ''X_scaled'' ''Y_scaled'' =
            Some (scale_col s xs, scale_col s ys) \<and>
          map_option (other_cols ''X_scaled'' ''Y_scaled'') (out_frame (scale_airfoil r s h)) =
            Some (other_cols ''X_scaled'' ''Y_scaled'' (h ! r)) \<and>
          (''X_scaled'' \<notin> fst ` set (h ! r) \<and> ''Y_scaled'' \<notin> fst ` set (h ! r) \<longrightarrow>
             out_frame (scale_airfoil r s h) =
               Some (h ! r @ [(''X_scaled'', scale_col s xs), (''Y_scaled'', scale_col s ys)])))"
proof -
  note ledge = run_keeps_columns [OF twist_airfoil_ledge_run [OF assms, of a] assms]
    and centr = run_keeps_columns [OF twist_airfoil_centroid_run [OF assms, of a] assms]
    and scale = run_keeps_columns [OF scale_airfoil_run [OF assms, of s] assms]
  from ledge centr scale show ?thesis
    by simp
qed

theorem transforms_keep_original_columns_witness:
  "has_frame [labelled_square] 0 [Num 0, Num 1, Num 1, Num 0] [Num 0, Num 0, Num 1, Num 1] \<and>
   out_cols (twist_airfoil_ledge 0 90 [labelled_square]) ''X'' ''Y'' =
     Some ([Num 0, Num 1, Num 1, Num 0], [Num 0, Num 0, Num 1, Num 1]) \<and>
   map_option (other_cols ''X_twisted'' ''Y_twisted'')
       (out_frame (twist_airfoil_ledge 0 90 [labelled_square])) = Some labelled_square \<and>
   out_cols (twist_airfoil_centroid 0 90 [labelled_square]) ''X'' ''Y'' =
     Some ([Num 0, Num 1, Num 1, Num 0], [Num 0, Num 0, Num 1, Num 1]) \<and>
   map_option (other_cols ''X_twisted'' ''Y_twisted'')
       (out_frame (twist_airfoil_centroid 0 90 [labelled_square])) = Some labelled_square \<and>
   out_cols (scale_airfoil 0 2 [labelled_square]) ''X'' ''Y'' =
     Some ([Num 0, Num 1, Num 1, Num 0], [Num 0, Num 0, Num 1, Num 1]) \<and>
   map_option (other_cols ''X_scaled'' ''Y_scaled'')
       (out_frame (scale_airfoil 0 2 [labelled_square])) = Some labelled_square"
proof -
  note t = transforms_keep_original_columns [OF has_frame_labelled_square, of 90 2]
  from t have "out_cols (twist_airfoil_ledge 0 90 [labelled_square]) ''X'' ''Y'' =
      Some ([Num 0, Num 1, Num 1, Num 0], [Num 0, Num 0, Num 1, Num 1])"
    and "out_cols (twist_airfoil_centroid 0 90 [labelled_square]) ''X'' ''Y'' =
      Some ([Num 0, Num 1, Num 1, Num 0], [Num 0, Num 0, Num 1, Num 1])"
    and "out_cols (scale_airfoil 0 2 [labelled_square]) ''X'' ''Y'' =
      Some ([Num 0, Num 1, Num 1, Num 0], [Num 0, Num 0, Num 1, Num 1])"
    by blast+
  moreover from t have
    "map_option (other_cols ''X_twisted'' ''Y_twisted'')
       (out_frame (twist_airfoil_ledge 0 90 [labelled_square])) = Some labelled_square"
    and "map_option (other_cols ''X_twisted'' ''Y_twisted'')
       (out_frame (twist_airfoil_centroid 0 90 [labelled_square])) = Some labelled_square"
    and "map_option (other_cols ''X_scaled'' ''Y_scaled'')
       (out_frame (scale_airfoil 0 2 [labelled_square])) = Some labelled_square"
    by (simp_all add: other_cols_labelled_square)
  ultimately show ?thesis
    using has_frame_labelled_square by (intro conjI)
qed

end
